theory Spec2Isabelle
  imports Complex_Main "HOL-Library.AList"
begin

section \<open>Python values read from the source's JSON documents\<close>

text \<open>
  The snapshot is built from decoded JSON (\<^verbatim>\<open>resp.json()\<close>), so every field the
  pipeline reads is a dynamically typed Python value. A float is its exact rational value
  or one of the three non-finite values; Python's \<^verbatim>\<open>json\<close> decoder yields those for
  \<^verbatim>\<open>NaN\<close>, \<^verbatim>\<open>Infinity\<close> and for literals such as \<^verbatim>\<open>1e999\<close>. A dict is kept as
  its key/value pairs.
\<close>

datatype pyfloat = Fin rat | PosInf | NegInf | NaN

datatype pyval =
    PNone
  | PBool bool
  | PInt int
  | PFloat pyfloat
  | PStr string
  | PList "pyval list"
  | PDict "(string \<times> pyval) list"

text \<open>
  The exceptions the code distinguishes. \<open>Forbidden\<close> is \<^verbatim>\<open>discord.Forbidden\<close>;
  \<open>HTTPException\<close> stands for every other \<^verbatim>\<open>discord.HTTPException\<close> (in discord.py
  \<^verbatim>\<open>Forbidden\<close> is a subclass, and every handler of the source names it first). The
  remaining constructors are ordinary Python exceptions, none of them a
  \<^verbatim>\<open>discord.HTTPException\<close>; \<open>OtherError\<close> is any further \<^verbatim>\<open>Exception\<close>, such as
  an \<^verbatim>\<open>OSError\<close> of the transport.
\<close>

datatype exn =
    Forbidden
  | HTTPException
  | TypeError
  | AttributeError
  | ValueError
  | OverflowError
  | OtherError

subsection \<open>The built-in conversions used by \<^verbatim>\<open>safe_int\<close>\<close>

text \<open>
  \<^verbatim>\<open>int(s)\<close> for a string. The model fixes its value where it is the same in every
  interpreter: on an optional sign followed by ASCII decimal digits, at most 4300
  characters in all, the result is the number written. On every other string (surrounding
  whitespace, grouping underscores, digits of other scripts, longer literals, text that is
  no number) the outcome of \<^verbatim>\<open>int\<close> depends on the interpreter's Unicode tables and on
  its digit limit; there the model leaves it unspecified: \<open>undefined s\<close> is some outcome,
  \<open>None\<close> (a \<^verbatim>\<open>ValueError\<close>) or a number, of which nothing is assumed. \<^verbatim>\<open>safe_int\<close> maps
  either outcome to an int, so every statement below holds whatever \<^verbatim>\<open>int\<close> does there.
\<close>

definition digit_val :: "char \<Rightarrow> nat option" where
  "digit_val c =
     (if of_char c \<ge> (48::nat) \<and> of_char c \<le> (57::nat) then Some (of_char c - 48) else None)"

fun digits_value :: "nat \<Rightarrow> string \<Rightarrow> nat option" where
  "digits_value acc [] = Some acc"
| "digits_value acc (c # cs) =
     (case digit_val c of None \<Rightarrow> None | Some v \<Rightarrow> digits_value (10 * acc + v) cs)"

definition plain_decimal :: "string \<Rightarrow> int option" where
  "plain_decimal s =
     (case s of
        [] \<Rightarrow> None
      | c # cs \<Rightarrow>
          if c = CHR ''-'' then (if cs = [] then None else map_option (\<lambda>n. - int n) (digits_value 0 cs))
          else if c = CHR ''+'' then (if cs = [] then None else map_option int (digits_value 0 cs))
          else map_option int (digits_value 0 (c # cs)))"

definition py_int_str :: "string \<Rightarrow> int option" where
  "py_int_str s =
     (if length s \<le> 4300 \<and> plain_decimal s \<noteq> None then plain_decimal s else undefined s)"

text \<open>
  \<^verbatim>\<open>int(x)\<close> for a float truncates towards zero; it raises \<^verbatim>\<open>ValueError\<close> on NaN and
  \<^verbatim>\<open>OverflowError\<close> on an infinity.
\<close>

fun py_int_float :: "pyfloat \<Rightarrow> exn + int" where
  "py_int_float (Fin q) = Inr (if 0 \<le> q then \<lfloor>q\<rfloor> else \<lceil>q\<rceil>)"
| "py_int_float NaN = Inl ValueError"
| "py_int_float PosInf = Inl OverflowError"
| "py_int_float NegInf = Inl OverflowError"

subsection \<open>\<^verbatim>\<open>Clone.safe_int\<close>\<close>

text \<open>
  The branches in the source's order. \<^verbatim>\<open>isinstance(value, int)\<close> also holds for a
  bool, which is returned as it is; the model gives its integer value (\<^verbatim>\<open>True == 1\<close>).
  Only the string branch is wrapped in \<^verbatim>\<open>try/except\<close>.
\<close>

fun safe_int :: "pyval \<Rightarrow> int \<Rightarrow> exn + int" where
  "safe_int PNone dflt = Inr dflt"
| "safe_int (PInt n) dflt = Inr n"
| "safe_int (PBool b) dflt = Inr (if b then 1 else 0)"
| "safe_int (PStr s) dflt = Inr (case py_int_str s of Some n \<Rightarrow> n | None \<Rightarrow> dflt)"
| "safe_int (PFloat x) dflt = py_int_float x"
| "safe_int (PList xs) dflt = Inr dflt"
| "safe_int (PDict kvs) dflt = Inr dflt"

subsection \<open>Python's dynamic operations on decoded values\<close>

text \<open>Sequencing of computations that may raise: the first exception ends the block.\<close>

fun bind_exn :: "exn + 'a \<Rightarrow> ('a \<Rightarrow> exn + 'b) \<Rightarrow> exn + 'b" where
  "bind_exn (Inl e) f = Inl e"
| "bind_exn (Inr x) f = f x"

text \<open>
  \<^verbatim>\<open>d.get(key, dflt)\<close>: only a dict has the method; on any other value the attribute
  access raises \<^verbatim>\<open>AttributeError\<close>.
\<close>

fun py_get :: "pyval \<Rightarrow> string \<Rightarrow> pyval \<Rightarrow> exn + pyval" where
  "py_get (PDict kvs) k dflt = Inr (case map_of kvs k of Some v \<Rightarrow> v | None \<Rightarrow> dflt)"
| "py_get v k dflt = Inl AttributeError"

text \<open>The recurring read \<^verbatim>\<open>self.safe_int(d.get(key), 0)\<close>.\<close>

definition int_field :: "pyval \<Rightarrow> string \<Rightarrow> exn + int" where
  "int_field d k = bind_exn (py_get d k PNone) (\<lambda>v. safe_int v 0)"

text \<open>\<^verbatim>\<open>key in d\<close> for a value already known to be a dict.\<close>

fun py_has_key :: "pyval \<Rightarrow> string \<Rightarrow> bool" where
  "py_has_key (PDict kvs) k = (map_of kvs k \<noteq> None)"
| "py_has_key v k = False"

fun is_dict :: "pyval \<Rightarrow> bool" where
  "is_dict (PDict kvs) = True"
| "is_dict v = False"

text \<open>Truth value of a decoded value (\<^verbatim>\<open>if x\<close>, \<^verbatim>\<open>not x\<close>).\<close>

fun py_truthy :: "pyval \<Rightarrow> bool" where
  "py_truthy PNone = False"
| "py_truthy (PBool b) = b"
| "py_truthy (PInt n) = (n \<noteq> 0)"
| "py_truthy (PFloat (Fin q)) = (q \<noteq> 0)"
| "py_truthy (PFloat x) = True"
| "py_truthy (PStr s) = (s \<noteq> [])"
| "py_truthy (PList xs) = (xs \<noteq> [])"
| "py_truthy (PDict kvs) = (kvs \<noteq> [])"

text \<open>
  \<^verbatim>\<open>v == n\<close> for an integer literal \<open>n\<close>: numbers compare by value across int, bool and
  float; every other value is unequal to a number.
\<close>

fun py_eq_int :: "pyval \<Rightarrow> int \<Rightarrow> bool" where
  "py_eq_int (PInt m) n = (m = n)"
| "py_eq_int (PBool b) n = ((if b then 1 else 0) = n)"
| "py_eq_int (PFloat (Fin q)) n = (q = of_int n)"
| "py_eq_int v n = False"

text \<open>
  \<^verbatim>\<open>for x in v\<close>: a list yields its items, a string its characters, a dict its keys;
  \<^verbatim>\<open>None\<close> and numbers are not iterable.
\<close>

fun py_iter :: "pyval \<Rightarrow> exn + pyval list" where
  "py_iter (PList xs) = Inr xs"
| "py_iter (PStr s) = Inr (map (\<lambda>c. PStr [c]) s)"
| "py_iter (PDict kvs) = Inr (map (\<lambda>kv. PStr (fst kv)) kvs)"
| "py_iter v = Inl TypeError"

text \<open>\<^verbatim>\<open>s.lower()\<close> on ASCII text.\<close>

definition py_lower :: "string \<Rightarrow> string" where
  "py_lower s =
     map (\<lambda>c. if (65::nat) \<le> of_char c \<and> of_char c \<le> (90::nat)
                then char_of (of_char c + (32::nat)) else c) s"

subsection \<open>The remapper tables as Python dicts\<close>

text \<open>
  A table is a dict from the source's id value (whatever \<^verbatim>\<open>.get("id")\<close> returned) to
  the handle of the object created on the target. It is kept as its items in insertion
  order. Keys are compared the way a dict compares them: numbers by value (\<^verbatim>\<open>1\<close>,
  \<^verbatim>\<open>1.0\<close> and \<^verbatim>\<open>True\<close> are one key), so a key is normalised by \<open>py_key\<close> before it is
  stored or looked up; a string never equals a number. A list or a dict is unhashable and
  both reading and writing with it raise \<^verbatim>\<open>TypeError\<close>. (A NaN key is compared
  structurally here; Python finds it only through the very object that was stored.)
\<close>

type_synonym handle = nat

type_synonym remap = "(pyval \<times> handle) list"

fun py_hashable :: "pyval \<Rightarrow> bool" where
  "py_hashable (PList xs) = False"
| "py_hashable (PDict kvs) = False"
| "py_hashable v = True"

fun py_key :: "pyval \<Rightarrow> pyval" where
  "py_key (PBool b) = PInt (if b then 1 else 0)"
| "py_key (PFloat (Fin q)) = (if of_int \<lfloor>q\<rfloor> = q then PInt \<lfloor>q\<rfloor> else PFloat (Fin q))"
| "py_key v = v"

definition dict_get :: "remap \<Rightarrow> pyval \<Rightarrow> exn + handle option" where
  "dict_get m k = (if py_hashable k then Inr (map_of m (py_key k)) else Inl TypeError)"

definition dict_set :: "remap \<Rightarrow> pyval \<Rightarrow> handle \<Rightarrow> exn + remap" where
  "dict_set m k h = (if py_hashable k then Inr (AList.update (py_key k) h m) else Inl TypeError)"

subsection \<open>\<^verbatim>\<open>Clone.parse_permission_overwrites\<close>\<close>

text \<open>
  The result is the dict \<^verbatim>\<open>overwrites_to\<close> from a target role to its overwrite object.
  \<open>FromPair a d\<close> is the object
  \<^verbatim>\<open>PermissionOverwrite.from_pair(Permissions(a), Permissions(d))\<close>, named by the two
  values it is built from (\<^verbatim>\<open>discord.Permissions\<close> accepts every int). Which allow and deny
  bits that object ends up with is decided inside discord.py (a bit set in both is denied,
  a bit that is no known flag is dropped) and is not modelled. A role object is always
  truthy, so
  \<^verbatim>\<open>not target_role\<close> is the test for \<^verbatim>\<open>None\<close>. \<open>src\<close> is \<^verbatim>\<open>self.bot.source_id\<close>
  (\<^verbatim>\<open>None\<close> until a source was chosen) and \<open>dr\<close> is \<^verbatim>\<open>guild_to.default_role\<close>.

  \<open>ow_entry\<close> is the body of the loop for one item: the exception it raises, or the
  entry it stores, if any.
\<close>

datatype overwrite = FromPair int int

type_synonym overwrites = "(handle \<times> overwrite) list"

definition ow_entry ::
  "remap \<Rightarrow> int option \<Rightarrow> handle \<Rightarrow> pyval \<Rightarrow> exn + (handle \<times> overwrite) option" where
  "ow_entry rm src dr ow =
     bind_exn (py_get ow ''type'' (PInt 0)) (\<lambda>ow_type.
     bind_exn (int_field ow ''id'') (\<lambda>source_id.
     bind_exn (int_field ow ''allow'') (\<lambda>allow_val.
     bind_exn (int_field ow ''deny'') (\<lambda>deny_val.
       if py_eq_int ow_type 0 then
         bind_exn (dict_get rm (PInt source_id)) (\<lambda>found.
           let target_role =
                 (if found = None \<and> Some source_id = src then Some dr else found)
           in Inr (case target_role of
                     Some h \<Rightarrow> Some (h, FromPair allow_val deny_val)
                   | None \<Rightarrow> None))
       else Inr None))))"

fun parse_loop ::
  "remap \<Rightarrow> int option \<Rightarrow> handle \<Rightarrow> pyval list \<Rightarrow> overwrites \<Rightarrow> exn + overwrites" where
  "parse_loop rm src dr [] acc = Inr acc"
| "parse_loop rm src dr (ow # rest) acc =
     (case ow_entry rm src dr ow of
        Inl e \<Rightarrow> Inl e
      | Inr None \<Rightarrow> parse_loop rm src dr rest acc
      | Inr (Some (h, ad)) \<Rightarrow> parse_loop rm src dr rest (AList.update h ad acc))"

definition parse_permission_overwrites ::
  "remap \<Rightarrow> int option \<Rightarrow> handle \<Rightarrow> pyval \<Rightarrow> exn + overwrites" where
  "parse_permission_overwrites rm src dr overwrites_data =
     bind_exn (py_iter overwrites_data) (\<lambda>items. parse_loop rm src dr items [])"

text \<open>
  The vocabulary of the translation rule, for stating what the loop emits. An overwrite is
  of group kind when its \<^verbatim>\<open>type\<close> (0 when absent) equals 0; type 1 is a member. Its
  source id is \<^verbatim>\<open>safe_int\<close> of its \<^verbatim>\<open>id\<close>. A source id resolves to the handle found
  in the group remapper or, when absent there and equal to the recorded source id, to the
  target's default role.
\<close>

definition group_kind :: "pyval \<Rightarrow> bool" where
  "group_kind ow = (case py_get ow ''type'' (PInt 0) of Inr t \<Rightarrow> py_eq_int t 0 | Inl e \<Rightarrow> False)"

definition resolve_group :: "remap \<Rightarrow> int option \<Rightarrow> handle \<Rightarrow> int \<Rightarrow> handle option" where
  "resolve_group rm src dr sid =
     (case map_of rm (PInt sid) of
        Some h \<Rightarrow> Some h
      | None \<Rightarrow> if Some sid = src then Some dr else None)"

definition emits :: "remap \<Rightarrow> int option \<Rightarrow> handle \<Rightarrow> pyval \<Rightarrow> handle \<Rightarrow> bool" where
  "emits rm src dr ow h =
     (group_kind ow \<and>
      (case int_field ow ''id'' of
         Inr sid \<Rightarrow> resolve_group rm src dr sid = Some h
       | Inl e \<Rightarrow> False))"

section \<open>The target guild, its API and the state of a run\<close>

text \<open>
  The target guild as the bot's client sees it: the default role, the cached roles,
  channels and emojis (each with its name) and the two permissions of the bot's own member
  that \<^verbatim>\<open>check_target\<close> reads.
\<close>

record guild =
  g_name :: string
  g_default_role :: handle
  g_roles :: "(handle \<times> string) list"
  g_channels :: "(handle \<times> string) list"
  g_emojis :: "(handle \<times> string) list"
  g_manage_channels :: bool
  g_manage_roles :: bool

text \<open>
  The mutating calls of discord.py that the pipeline issues, with the arguments the source
  passes. Optional keyword arguments that a call site leaves out are \<open>None\<close>.
\<close>

datatype call =
    RoleDelete handle
  | ChannelDelete handle
  | EmojiDelete handle
  | RoleEditPermissions handle int
  | RoleEditPosition handle int
  | CreateRole pyval int int pyval pyval
  | CreateCategory pyval overwrites
  | ChannelEditPosition handle int
  | ChannelEditNews handle
  | CreateTextChannel pyval "handle option" overwrites int "pyval option" "int option" "bool option"
  | CreateVoiceChannel pyval "handle option" overwrites int int int
  | CreateStageChannel pyval "handle option" overwrites int
  | CreateForum pyval "handle option" overwrites int pyval
  | CreateEmoji pyval string
  | GuildEditName pyval
  | GuildEditIcon string

datatype outcome = Ok handle | Raise exn

text \<open>
  The reads of binary content (an emoji image by id and extension, the guild icon by
  guild id and icon hash) answer with a status and a body, or fail in the transport.
\<close>

datatype cdn_req = EmojiImage pyval string | GuildIcon pyval pyval

datatype fetched = Fetched nat string | FetchRaise exn

text \<open>
  Everything outside the program: how the target answers a call, given the calls issued
  before it; what the content server returns; which guilds the client can resolve.
\<close>

record world =
  api :: "call list \<Rightarrow> call \<Rightarrow> outcome"
  cdn :: "cdn_req \<Rightarrow> fetched"
  get_guild :: "int \<Rightarrow> guild option"

text \<open>The snapshot returned by \<^verbatim>\<open>scrape_server\<close>.\<close>

record snapshot =
  s_id :: int
  s_timestamp :: string
  s_guild :: pyval
  s_channels :: "pyval list"
  s_roles :: "pyval list"
  s_emojis :: "pyval list"

text \<open>
  The mutable state of \<^verbatim>\<open>CloneBot\<close> and of its \<^verbatim>\<open>Clone\<close> helper, in one record. \<open>trace\<close>
  is not a field of the program: it lists the mutating calls issued so far, in order.
  \<open>log\<close> holds the lines written by \<^verbatim>\<open>log_add\<close>, \<^verbatim>\<open>log_delete\<close> and \<^verbatim>\<open>log_error\<close>
  (the fixed part of each message). Other console output is left out, as is the pause of
  \<^verbatim>\<open>RateLimiter.wait\<close> before each item, which only spends time.
\<close>

datatype log_kind = Added | Deleted | Failed

record bot =
  role_map :: remap
  cat_map :: remap
  chan_map :: remap
  source_id :: "int option"
  client :: bool
  target_id :: "int option"
  scraped_data :: "snapshot option"
  trace :: "call list"
  current_operation :: string
  completed :: nat
  total :: nat
  errors :: nat
  log :: "(log_kind \<times> string) list"

definition log_add :: "string \<Rightarrow> bot \<Rightarrow> bot" where
  "log_add msg s = s\<lparr>log := log s @ [(Added, msg)]\<rparr>"

definition log_delete :: "string \<Rightarrow> bot \<Rightarrow> bot" where
  "log_delete msg s = s\<lparr>log := log s @ [(Deleted, msg)]\<rparr>"

definition log_error :: "string \<Rightarrow> bot \<Rightarrow> bot" where
  "log_error msg s = s\<lparr>log := log s @ [(Failed, msg)], errors := errors s + 1\<rparr>"

definition reset_stats :: "bot \<Rightarrow> bot" where
  "reset_stats s = s\<lparr>current_operation := ''idle'', completed := 0, total := 0, errors := 0\<rparr>"

definition step_done :: "bot \<Rightarrow> bot" where
  "step_done s = s\<lparr>completed := completed s + 1\<rparr>"

definition invoke :: "world \<Rightarrow> call \<Rightarrow> bot \<Rightarrow> outcome \<times> bot" where
  "invoke W c s = (api W (trace s) c, s\<lparr>trace := trace s @ [c]\<rparr>)"

text \<open>
  A \<^verbatim>\<open>for\<close> loop whose body may let an exception escape: the result is the escaped
  exception, if any, and the state reached. An escaped exception ends the loop.
\<close>

fun for_each :: "('a \<Rightarrow> bot \<Rightarrow> exn option \<times> bot) \<Rightarrow> 'a list \<Rightarrow> bot \<Rightarrow> exn option \<times> bot" where
  "for_each body [] s = (None, s)"
| "for_each body (x # xs) s =
     (case body x s of
        (None, s1) \<Rightarrow> for_each body xs s1
      | (Some e, s1) \<Rightarrow> (Some e, s1))"

text \<open>
  \<^verbatim>\<open>sorted(xs, key=f)\<close>: the key of every item is computed first, in order (the first
  exception escapes); the sort is stable.
\<close>

fun keyed :: "(pyval \<Rightarrow> exn + int) \<Rightarrow> pyval list \<Rightarrow> exn + (int \<times> pyval) list" where
  "keyed f [] = Inr []"
| "keyed f (x # xs) =
     (case f x of
        Inl e \<Rightarrow> Inl e
      | Inr k \<Rightarrow> (case keyed f xs of Inl e \<Rightarrow> Inl e | Inr ys \<Rightarrow> Inr ((k, x) # ys)))"

definition py_sorted :: "(pyval \<Rightarrow> exn + int) \<Rightarrow> pyval list \<Rightarrow> exn + pyval list" where
  "py_sorted f xs = (case keyed f xs of Inl e \<Rightarrow> Inl e | Inr ks \<Rightarrow> Inr (map snd (sort_key fst ks)))"

text \<open>
  \<^verbatim>\<open>[c for c in channels_data if c.get("type") == 4]\<close> (\<open>want = True\<close>) and the same
  with \<^verbatim>\<open>!=\<close> (\<open>want = False\<close>).
\<close>

fun select_type :: "bool \<Rightarrow> pyval list \<Rightarrow> exn + pyval list" where
  "select_type want [] = Inr []"
| "select_type want (c # cs) =
     (case py_get c ''type'' PNone of
        Inl e \<Rightarrow> Inl e
      | Inr t \<Rightarrow>
          (case select_type want cs of
             Inl e \<Rightarrow> Inl e
           | Inr r \<Rightarrow> Inr (if py_eq_int t 4 = want then c # r else r)))"

section \<open>The phases of \<^verbatim>\<open>Clone\<close>\<close>

subsection \<open>The three wipe phases\<close>

text \<open>
  \<^verbatim>\<open>roles_delete\<close>, \<^verbatim>\<open>channels_delete\<close> and \<^verbatim>\<open>emojis_delete\<close> share one loop body:
  the delete call in a \<^verbatim>\<open>try\<close> with the two handlers \<^verbatim>\<open>except discord.Forbidden\<close> and
  \<^verbatim>\<open>except discord.HTTPException\<close>, then \<^verbatim>\<open>self.completed += 1\<close>.
\<close>

definition delete_item ::
  "world \<Rightarrow> (handle \<Rightarrow> call) \<Rightarrow> string \<Rightarrow> handle \<times> string \<Rightarrow> bot \<Rightarrow> exn option \<times> bot" where
  "delete_item W mk what item s =
     (case invoke W (mk (fst item)) s of
        (Ok r, s1) \<Rightarrow> (None, step_done (log_delete what s1))
      | (Raise e, s1) \<Rightarrow>
          if e = Forbidden then (None, step_done (log_error ''forbidden'' s1))
          else if e = HTTPException then (None, step_done (log_error ''http error'' s1))
          else (Some e, s1))"

definition roles_delete :: "world \<Rightarrow> guild \<Rightarrow> bot \<Rightarrow> exn option \<times> bot" where
  "roles_delete W guild_to s =
     (let roles = filter (\<lambda>r. snd r \<noteq> ''@everyone'') (g_roles guild_to)
      in for_each (delete_item W RoleDelete ''deleted role'') roles
           (s\<lparr>current_operation := ''Deleting Roles'', total := length roles, completed := 0\<rparr>))"

definition channels_delete :: "world \<Rightarrow> guild \<Rightarrow> bot \<Rightarrow> exn option \<times> bot" where
  "channels_delete W guild_to s =
     for_each (delete_item W ChannelDelete ''deleted channel'') (g_channels guild_to)
       (s\<lparr>current_operation := ''Deleting Channels'', total := length (g_channels guild_to),
          completed := 0\<rparr>)"

definition emojis_delete :: "world \<Rightarrow> guild \<Rightarrow> bot \<Rightarrow> exn option \<times> bot" where
  "emojis_delete W guild_to s =
     (let s0 = s\<lparr>current_operation := ''Deleting Emojis'', total := length (g_emojis guild_to),
                  completed := 0\<rparr>
      in if g_emojis guild_to = [] then (None, s0)
         else for_each (delete_item W EmojiDelete ''deleted emoji'') (g_emojis guild_to) s0)"

subsection \<open>\<^verbatim>\<open>roles_create\<close> and \<^verbatim>\<open>reorder_roles\<close>\<close>

text \<open>
  The two \<^verbatim>\<open>try\<close> blocks of the loop body. Each returns the exception that left the
  block, if any, with the state at that point. \<^verbatim>\<open>discord.Permissions\<close> and
  \<^verbatim>\<open>discord.Color\<close> accept every int, and \<^verbatim>\<open>Color.default()\<close> is the colour 0, so the
  colour passed on is \<^verbatim>\<open>color_val\<close> in both cases.
\<close>

definition flag_value :: "pyval \<Rightarrow> pyval" where
  "flag_value v = (case v of PStr t \<Rightarrow> PBool (py_lower t = ''true'') | _ \<Rightarrow> v)"

definition everyone_body :: "world \<Rightarrow> guild \<Rightarrow> pyval \<Rightarrow> bot \<Rightarrow> exn option \<times> bot" where
  "everyone_body W guild_to role_data s =
     (case int_field role_data ''permissions'' of
        Inl e \<Rightarrow> (Some e, s)
      | Inr perms_val \<Rightarrow>
          (case invoke W (RoleEditPermissions (g_default_role guild_to) perms_val) s of
             (Raise e, s1) \<Rightarrow> (Some e, s1)
           | (Ok r, s1) \<Rightarrow>
               (case bind_exn (py_get role_data ''id'' PNone)
                       (\<lambda>k. dict_set (role_map s1) k (g_default_role guild_to)) of
                  Inl e \<Rightarrow> (Some e, s1)
                | Inr m \<Rightarrow> (None, log_add ''updated @everyone permissions'' (s1\<lparr>role_map := m\<rparr>)))))"

definition role_call :: "pyval \<Rightarrow> pyval \<Rightarrow> exn + call" where
  "role_call role_data name =
     bind_exn (int_field role_data ''permissions'') (\<lambda>perms_val.
     bind_exn (int_field role_data ''color'') (\<lambda>color_val.
     bind_exn (py_get role_data ''hoist'' (PBool False)) (\<lambda>hoist.
     bind_exn (py_get role_data ''mentionable'' (PBool False)) (\<lambda>mentionable.
       Inr (CreateRole name perms_val color_val (flag_value hoist) (flag_value mentionable))))))"

definition role_body :: "world \<Rightarrow> pyval \<Rightarrow> pyval \<Rightarrow> bot \<Rightarrow> exn option \<times> bot" where
  "role_body W role_data name s =
     (case role_call role_data name of
        Inl e \<Rightarrow> (Some e, s)
      | Inr c \<Rightarrow>
          (case invoke W c s of
             (Raise e, s1) \<Rightarrow> (Some e, s1)
           | (Ok new_role, s1) \<Rightarrow>
               (case bind_exn (py_get role_data ''id'' PNone)
                       (\<lambda>k. dict_set (role_map s1) k new_role) of
                  Inl e \<Rightarrow> (Some e, s1)
                | Inr m \<Rightarrow> (None, log_add ''created role'' (s1\<lparr>role_map := m\<rparr>)))))"

text \<open>
  The handlers \<^verbatim>\<open>except discord.Forbidden\<close>, \<^verbatim>\<open>except discord.HTTPException\<close> and
  \<^verbatim>\<open>except Exception\<close> of the creation phases differ only in the message.
\<close>

definition error_label :: "exn \<Rightarrow> string" where
  "error_label e =
     (if e = Forbidden then ''forbidden'' else if e = HTTPException then ''http error''
      else ''error'')"

definition role_item :: "world \<Rightarrow> guild \<Rightarrow> pyval \<Rightarrow> bot \<Rightarrow> exn option \<times> bot" where
  "role_item W guild_to role_data s =
     (case py_get role_data ''name'' (PStr ''unnamed'') of
        Inl e \<Rightarrow> (Some e, s)
      | Inr name \<Rightarrow>
          if name = PStr ''@everyone'' then
            (case everyone_body W guild_to role_data s of
               (None, s1) \<Rightarrow> (None, step_done s1)
             | (Some e, s1) \<Rightarrow> (None, step_done (log_error ''everyone error'' s1)))
          else
            (case role_body W role_data name s of
               (None, s1) \<Rightarrow> (None, step_done s1)
             | (Some e, s1) \<Rightarrow> (None, step_done (log_error (error_label e) s1))))"

text \<open>
  \<^verbatim>\<open>reorder_roles\<close>. The test \<^verbatim>\<open>target_role.name == "@everyone"\<close> singles out the
  target's default role, the only object the loop above registers under that name: a
  created role carries the name it was created with, which is not \<^verbatim>\<open>@everyone\<close>. The
  edit is inside \<^verbatim>\<open>try ... except Exception: pass\<close>; the dict lookup is not.
\<close>

definition reorder_item :: "world \<Rightarrow> guild \<Rightarrow> pyval \<Rightarrow> bot \<Rightarrow> exn option \<times> bot" where
  "reorder_item W guild_to role_data s =
     (case bind_exn (py_get role_data ''id'' PNone) (dict_get (role_map s)) of
        Inl e \<Rightarrow> (Some e, s)
      | Inr None \<Rightarrow> (None, s)
      | Inr (Some target_role) \<Rightarrow>
          if target_role = g_default_role guild_to then (None, s)
          else
            (case int_field role_data ''position'' of
               Inl e \<Rightarrow> (None, s)
             | Inr position \<Rightarrow> (None, snd (invoke W (RoleEditPosition target_role position) s))))"

definition reorder_roles :: "world \<Rightarrow> guild \<Rightarrow> pyval list \<Rightarrow> bot \<Rightarrow> exn option \<times> bot" where
  "reorder_roles W guild_to roles_data s =
     for_each (reorder_item W guild_to) roles_data (s\<lparr>current_operation := ''Reordering Roles''\<rparr>)"

definition roles_create :: "world \<Rightarrow> guild \<Rightarrow> pyval list \<Rightarrow> bot \<Rightarrow> exn option \<times> bot" where
  "roles_create W guild_to roles_data s =
     (let s0 = s\<lparr>current_operation := ''Creating Roles'', total := length roles_data,
                  completed := 0\<rparr>
      in case py_sorted (\<lambda>r. bind_exn (py_get r ''position'' (PInt 0)) (\<lambda>v. safe_int v 0))
                roles_data of
           Inl e \<Rightarrow> (Some e, s0)
         | Inr sorted_roles \<Rightarrow>
             (case for_each (role_item W guild_to) sorted_roles s0 of
                (Some e, s1) \<Rightarrow> (Some e, s1)
              | (None, s1) \<Rightarrow> reorder_roles W guild_to sorted_roles s1))"

subsection \<open>\<^verbatim>\<open>categories_create\<close>\<close>

text \<open>
  The \<^verbatim>\<open>try\<close> block holds the translation of the overwrites, the creation, the edit of
  the position and, last, the registration in \<^verbatim>\<open>cat_map\<close>. Its handlers are
  \<^verbatim>\<open>except discord.Forbidden\<close> and \<^verbatim>\<open>except discord.HTTPException\<close> only.
\<close>

definition category_body :: "world \<Rightarrow> guild \<Rightarrow> pyval \<Rightarrow> pyval \<Rightarrow> bot \<Rightarrow> exn option \<times> bot" where
  "category_body W guild_to cat_data name s =
     (case bind_exn (py_get cat_data ''permission_overwrites'' (PList []))
             (parse_permission_overwrites (role_map s) (source_id s) (g_default_role guild_to)) of
        Inl e \<Rightarrow> (Some e, s)
      | Inr overwrites_to \<Rightarrow>
          (case invoke W (CreateCategory name overwrites_to) s of
             (Raise e, s1) \<Rightarrow> (Some e, s1)
           | (Ok new_cat, s1) \<Rightarrow>
               (case int_field cat_data ''position'' of
                  Inl e \<Rightarrow> (Some e, s1)
                | Inr pos \<Rightarrow>
                    (case invoke W (ChannelEditPosition new_cat pos) s1 of
                       (Raise e, s2) \<Rightarrow> (Some e, s2)
                     | (Ok r, s2) \<Rightarrow>
                         (case bind_exn (py_get cat_data ''id'' PNone)
                                 (\<lambda>k. dict_set (cat_map s2) k new_cat) of
                            Inl e \<Rightarrow> (Some e, s2)
                          | Inr m \<Rightarrow>
                              (None, log_add ''created category'' (s2\<lparr>cat_map := m\<rparr>)))))))"

definition category_item :: "world \<Rightarrow> guild \<Rightarrow> pyval \<Rightarrow> bot \<Rightarrow> exn option \<times> bot" where
  "category_item W guild_to cat_data s =
     (case py_get cat_data ''name'' (PStr ''unnamed'') of
        Inl e \<Rightarrow> (Some e, s)
      | Inr name \<Rightarrow>
          (case category_body W guild_to cat_data name s of
             (None, s1) \<Rightarrow> (None, step_done s1)
           | (Some e, s1) \<Rightarrow>
               if e = Forbidden then (None, step_done (log_error ''forbidden'' s1))
               else if e = HTTPException then (None, step_done (log_error ''http error'' s1))
               else (Some e, s1)))"

definition categories_create :: "world \<Rightarrow> guild \<Rightarrow> pyval list \<Rightarrow> bot \<Rightarrow> exn option \<times> bot" where
  "categories_create W guild_to channels_data s =
     (let s0 = s\<lparr>current_operation := ''Creating Categories''\<rparr>
      in case bind_exn (select_type True channels_data) (py_sorted (\<lambda>c. int_field c ''position'')) of
           Inl e \<Rightarrow> (Some e, s0)
         | Inr cats_data \<Rightarrow>
             (let s1 = s0\<lparr>total := length cats_data, completed := 0\<rparr>
              in if cats_data = [] then (None, s1)
                 else for_each (category_item W guild_to) cats_data s1))"

subsection \<open>\<^verbatim>\<open>channels_create\<close>\<close>

text \<open>
  The creation call of a leaf, chosen by its type code as the \<^verbatim>\<open>if/elif\<close> chain does:
  0 text, 2 voice, 5 announcement (created as a text channel), 13 stage, 15 forum, and a
  plain text channel for every other code. The keyword arguments are evaluated inside the
  \<^verbatim>\<open>try\<close> block, so a \<^verbatim>\<open>safe_int\<close> that raises there is caught with the rest.
\<close>

definition nsfw_flag :: "pyval \<Rightarrow> bool" where
  "nsfw_flag v = (case v of PBool b \<Rightarrow> b | _ \<Rightarrow> False)"

definition leaf_call ::
  "int \<Rightarrow> pyval \<Rightarrow> handle option \<Rightarrow> overwrites \<Rightarrow> int \<Rightarrow> pyval \<Rightarrow> exn + call" where
  "leaf_call chan_type name category overwrites_to pos ch_data =
     (if chan_type = 0 then
        bind_exn (py_get ch_data ''topic'' PNone) (\<lambda>topic.
        bind_exn (int_field ch_data ''rate_limit_per_user'') (\<lambda>slowmode.
        bind_exn (py_get ch_data ''nsfw'' PNone) (\<lambda>nsfw.
          Inr (CreateTextChannel name category overwrites_to pos (Some topic) (Some slowmode)
                 (Some (nsfw_flag nsfw))))))
      else if chan_type = 2 then
        bind_exn (bind_exn (py_get ch_data ''bitrate'' PNone) (\<lambda>v. safe_int v 64000)) (\<lambda>bitrate.
        bind_exn (int_field ch_data ''user_limit'') (\<lambda>user_limit.
          Inr (CreateVoiceChannel name category overwrites_to pos bitrate user_limit)))
      else if chan_type = 5 then
        bind_exn (py_get ch_data ''topic'' PNone) (\<lambda>topic.
          Inr (CreateTextChannel name category overwrites_to pos (Some topic) None None))
      else if chan_type = 13 then
        Inr (CreateStageChannel name category overwrites_to pos)
      else if chan_type = 15 then
        bind_exn (py_get ch_data ''topic'' PNone) (\<lambda>topic.
          Inr (CreateForum name category overwrites_to pos topic))
      else
        Inr (CreateTextChannel name category overwrites_to pos None None None))"

definition leaf_label :: "int \<Rightarrow> string" where
  "leaf_label chan_type =
     (if chan_type = 0 then ''created text'' else if chan_type = 2 then ''created voice''
      else if chan_type = 5 then ''created news'' else if chan_type = 13 then ''created stage''
      else if chan_type = 15 then ''created forum'' else ''created channel'')"

text \<open>
  The \<^verbatim>\<open>try\<close> block of the loop body. For an announcement channel the change of type is
  tried after the creation and its failure is swallowed (\<^verbatim>\<open>except: pass\<close>) before the
  handle is registered.
\<close>

definition channel_body ::
  "world \<Rightarrow> pyval \<Rightarrow> pyval \<Rightarrow> int \<Rightarrow> handle option \<Rightarrow> overwrites \<Rightarrow> bot \<Rightarrow> exn option \<times> bot" where
  "channel_body W ch_data name chan_type category overwrites_to s =
     (case bind_exn (int_field ch_data ''position'')
             (\<lambda>pos. leaf_call chan_type name category overwrites_to pos ch_data) of
        Inl e \<Rightarrow> (Some e, s)
      | Inr c \<Rightarrow>
          (case invoke W c s of
             (Raise e, s1) \<Rightarrow> (Some e, s1)
           | (Ok new_chan, s1) \<Rightarrow>
               (let s2 = (if chan_type = 5 then snd (invoke W (ChannelEditNews new_chan) s1) else s1)
                in case bind_exn (py_get ch_data ''id'' PNone)
                          (\<lambda>k. dict_set (chan_map s2) k new_chan) of
                     Inl e \<Rightarrow> (Some e, s2)
                   | Inr m \<Rightarrow> (None, log_add (leaf_label chan_type) (s2\<lparr>chan_map := m\<rparr>)))))"

text \<open>
  \<^verbatim>\<open>category = self.bot.cat_map.get(parent_id) if parent_id else None\<close>: the table is
  consulted only for a truthy \<^verbatim>\<open>parent_id\<close>.
\<close>

definition leaf_category :: "remap \<Rightarrow> pyval \<Rightarrow> exn + handle option" where
  "leaf_category cm parent_id = (if py_truthy parent_id then dict_get cm parent_id else Inr None)"

text \<open>
  What the loop body evaluates before its \<^verbatim>\<open>try\<close> block: name, type code, category and
  translated overwrites. An exception here is outside every handler.
\<close>

definition channel_prelude ::
  "guild \<Rightarrow> pyval \<Rightarrow> bot \<Rightarrow> exn + (pyval \<times> int \<times> handle option \<times> overwrites)" where
  "channel_prelude guild_to ch_data s =
     bind_exn (py_get ch_data ''name'' (PStr ''unnamed'')) (\<lambda>name.
     bind_exn (int_field ch_data ''type'') (\<lambda>chan_type.
     bind_exn (py_get ch_data ''parent_id'' PNone) (\<lambda>parent_id.
     bind_exn (leaf_category (cat_map s) parent_id) (\<lambda>category.
     bind_exn (bind_exn (py_get ch_data ''permission_overwrites'' (PList []))
                 (parse_permission_overwrites (role_map s) (source_id s)
                    (g_default_role guild_to))) (\<lambda>overwrites_to.
       Inr (name, chan_type, category, overwrites_to))))))"

definition channel_item :: "world \<Rightarrow> guild \<Rightarrow> pyval \<Rightarrow> bot \<Rightarrow> exn option \<times> bot" where
  "channel_item W guild_to ch_data s =
     (case channel_prelude guild_to ch_data s of
        Inl e \<Rightarrow> (Some e, s)
      | Inr (name, chan_type, category, overwrites_to) \<Rightarrow>
          (case channel_body W ch_data name chan_type category overwrites_to s of
             (None, s1) \<Rightarrow> (None, step_done s1)
           | (Some e, s1) \<Rightarrow> (None, step_done (log_error (error_label e) s1))))"

definition channels_create :: "world \<Rightarrow> guild \<Rightarrow> pyval list \<Rightarrow> bot \<Rightarrow> exn option \<times> bot" where
  "channels_create W guild_to channels_data s =
     (let s0 = s\<lparr>current_operation := ''Creating Channels''\<rparr>
      in case bind_exn (select_type False channels_data) (py_sorted (\<lambda>c. int_field c ''position'')) of
           Inl e \<Rightarrow> (Some e, s0)
         | Inr chans_data \<Rightarrow>
             (let s1 = s0\<lparr>total := length chans_data, completed := 0\<rparr>
              in if chans_data = [] then (None, s1)
                 else for_each (channel_item W guild_to) chans_data s1))"

subsection \<open>\<^verbatim>\<open>emojis_create\<close> and \<^verbatim>\<open>guild_edit\<close>\<close>

definition emoji_body :: "world \<Rightarrow> pyval \<Rightarrow> pyval \<Rightarrow> pyval \<Rightarrow> bot \<Rightarrow> exn option \<times> bot" where
  "emoji_body W name animated emoji_id s =
     (case cdn W (EmojiImage emoji_id (if py_truthy animated then ''gif'' else ''png'')) of
        FetchRaise e \<Rightarrow> (Some e, s)
      | Fetched status img \<Rightarrow>
          if status = 200 then
            (case invoke W (CreateEmoji name img) s of
               (Raise e, s1) \<Rightarrow> (Some e, s1)
             | (Ok r, s1) \<Rightarrow> (None, log_add ''created emoji'' s1))
          else (None, log_error ''download failed'' s))"

definition emoji_item :: "world \<Rightarrow> pyval \<Rightarrow> bot \<Rightarrow> exn option \<times> bot" where
  "emoji_item W emoji_data s =
     (case bind_exn (py_get emoji_data ''name'' (PStr ''unnamed'')) (\<lambda>name.
           bind_exn (py_get emoji_data ''animated'' (PBool False)) (\<lambda>animated.
           bind_exn (py_get emoji_data ''id'' PNone) (\<lambda>emoji_id.
             Inr (name, flag_value animated, emoji_id)))) of
        Inl e \<Rightarrow> (Some e, s)
      | Inr (name, animated, emoji_id) \<Rightarrow>
          if \<not> py_truthy emoji_id then (None, step_done (log_error ''no emoji id'' s))
          else
            (case emoji_body W name animated emoji_id s of
               (None, s1) \<Rightarrow> (None, step_done s1)
             | (Some e, s1) \<Rightarrow> (None, step_done (log_error (error_label e) s1))))"

definition emojis_create :: "world \<Rightarrow> guild \<Rightarrow> pyval list \<Rightarrow> bot \<Rightarrow> exn option \<times> bot" where
  "emojis_create W guild_to emojis_data s =
     (let s0 = s\<lparr>current_operation := ''Creating Emojis'', total := length emojis_data,
                  completed := 0\<rparr>
      in if emojis_data = [] then (None, s0) else for_each (emoji_item W) emojis_data s0)"

text \<open>
  \<^verbatim>\<open>guild_edit\<close>: the icon is fetched and set inside an inner
  \<^verbatim>\<open>try ... except Exception\<close> that only prints; the outer \<^verbatim>\<open>try\<close> has the single
  handler \<^verbatim>\<open>except discord.Forbidden\<close>.
\<close>

definition icon_body :: "world \<Rightarrow> pyval \<Rightarrow> pyval \<Rightarrow> bot \<Rightarrow> bot" where
  "icon_body W guild_data icon_hash s =
     (case py_get guild_data ''id'' (PStr ''0'') of
        Inl e \<Rightarrow> s
      | Inr gid \<Rightarrow>
          (case cdn W (GuildIcon gid icon_hash) of
             FetchRaise e \<Rightarrow> s
           | Fetched status icon_image \<Rightarrow>
               if status = 200 then
                 (case invoke W (GuildEditIcon icon_image) s of
                    (Raise e, s1) \<Rightarrow> s1
                  | (Ok r, s1) \<Rightarrow> log_add ''changed guild icon'' s1)
               else s))"

definition guild_body :: "world \<Rightarrow> pyval \<Rightarrow> bot \<Rightarrow> exn option \<times> bot" where
  "guild_body W guild_data s =
     (case py_get guild_data ''name'' (PStr ''unnamed'') of
        Inl e \<Rightarrow> (Some e, s)
      | Inr name \<Rightarrow>
          (case invoke W (GuildEditName name) s of
             (Raise e, s1) \<Rightarrow> (Some e, s1)
           | (Ok r, s1) \<Rightarrow>
               (let s2 = log_add ''renamed guild'' s1
                in case py_get guild_data ''icon'' PNone of
                     Inl e \<Rightarrow> (Some e, s2)
                   | Inr icon_hash \<Rightarrow>
                       if py_truthy icon_hash then (None, icon_body W guild_data icon_hash s2)
                       else (None, s2))))"

definition guild_edit :: "world \<Rightarrow> pyval \<Rightarrow> bot \<Rightarrow> exn option \<times> bot" where
  "guild_edit W guild_data s =
     (case guild_body W guild_data (s\<lparr>current_operation := ''Updating Guild''\<rparr>) of
        (None, s1) \<Rightarrow> (None, s1)
      | (Some e, s1) \<Rightarrow>
          if e = Forbidden then (None, log_error ''forbidden to edit guild'' s1) else (Some e, s1))"

section \<open>The entry points of \<^verbatim>\<open>CloneBot\<close>\<close>

text \<open>
  A line typed at the console is a Python str, kept as the list of its code points;
  \<open>text_of\<close> gives the str of an ASCII literal. \<^verbatim>\<open>str.strip()\<close> removes from both ends
  the characters for which \<^verbatim>\<open>str.isspace\<close> holds: U+0009 to U+000D, U+001C to U+0020,
  U+0085, U+00A0, U+1680, U+2000 to U+200A, U+2028, U+2029, U+202F, U+205F and U+3000.

  \<^verbatim>\<open>get_input\<close> prints the prompt and returns \<^verbatim>\<open>input().strip()\<close>; its argument here is
  the line the user typed.
\<close>

definition text_of :: "string \<Rightarrow> nat list" where
  "text_of s = map of_char s"

definition py_isspace :: "nat \<Rightarrow> bool" where
  "py_isspace c =
     ((9 \<le> c \<and> c \<le> 13) \<or> (28 \<le> c \<and> c \<le> 32) \<or> c = 133 \<or> c = 160 \<or> c = 5760
      \<or> (8192 \<le> c \<and> c \<le> 8202) \<or> c = 8232 \<or> c = 8233 \<or> c = 8239 \<or> c = 8287
      \<or> c = 12288)"

definition py_strip :: "nat list \<Rightarrow> nat list" where
  "py_strip s = rev (dropWhile py_isspace (rev (dropWhile py_isspace s)))"

definition get_input :: "nat list \<Rightarrow> nat list" where
  "get_input line = py_strip line"

text \<open>
  \<^verbatim>\<open>check_target\<close>. \<^verbatim>\<open>not self.target_id\<close> holds for \<^verbatim>\<open>None\<close> and for 0; a guild object
  is always truthy. The messages it writes with \<^verbatim>\<open>self.log\<close> are console output and are
  left out.
\<close>

definition check_target :: "world \<Rightarrow> bot \<Rightarrow> guild option" where
  "check_target W s =
     (if \<not> client s then None
      else
        (case target_id s of
           None \<Rightarrow> None
         | Some tid \<Rightarrow>
             if tid = 0 then None
             else
               (case get_guild W tid of
                  None \<Rightarrow> None
                | Some target \<Rightarrow>
                    if \<not> g_manage_channels target \<or> \<not> g_manage_roles target then None
                    else Some target)))"

text \<open>One phase after another; an exception that escaped a phase ends the run.\<close>

definition then_phase ::
  "exn option \<times> bot \<Rightarrow> (bot \<Rightarrow> exn option \<times> bot) \<Rightarrow> exn option \<times> bot" where
  "then_phase r f = (case r of (None, s) \<Rightarrow> f s | (Some e, s) \<Rightarrow> (Some e, s))"

definition full_clone_phases :: "world \<Rightarrow> guild \<Rightarrow> snapshot \<Rightarrow> bot \<Rightarrow> exn option \<times> bot" where
  "full_clone_phases W target snap s =
     then_phase (guild_edit W (s_guild snap) (reset_stats s)) (\<lambda>s1.
     then_phase (emojis_delete W target (reset_stats s1)) (\<lambda>s2.
     then_phase (channels_delete W target (reset_stats s2)) (\<lambda>s3.
     then_phase (roles_delete W target (reset_stats s3)) (\<lambda>s4.
     then_phase (roles_create W target (s_roles snap) (reset_stats s4)) (\<lambda>s5.
     then_phase (categories_create W target (s_channels snap) (reset_stats s5)) (\<lambda>s6.
     then_phase (channels_create W target (s_channels snap) (reset_stats s6)) (\<lambda>s7.
       emojis_create W target (s_emojis snap) (reset_stats s7))))))))"

definition do_full_clone :: "world \<Rightarrow> nat list \<Rightarrow> bot \<Rightarrow> exn option \<times> bot" where
  "do_full_clone W line s =
     (case scraped_data s of
        None \<Rightarrow> (None, s)
      | Some snap \<Rightarrow>
          (case check_target W s of
             None \<Rightarrow> (None, s)
           | Some target \<Rightarrow>
               if \<not> is_dict (s_guild snap) \<or> \<not> py_has_key (s_guild snap) ''name'' then (None, s)
               else if get_input line \<noteq> text_of ''clone'' then (None, s)
               else full_clone_phases W target snap
                      (s\<lparr>role_map := [], cat_map := [], chan_map := []\<rparr>)))"

definition do_delete_roles :: "world \<Rightarrow> nat list \<Rightarrow> bot \<Rightarrow> exn option \<times> bot" where
  "do_delete_roles W line s =
     (case check_target W s of
        None \<Rightarrow> (None, s)
      | Some target \<Rightarrow>
          if get_input line \<noteq> text_of ''delete'' then (None, s)
          else roles_delete W target (reset_stats s))"

definition do_delete_channels :: "world \<Rightarrow> nat list \<Rightarrow> bot \<Rightarrow> exn option \<times> bot" where
  "do_delete_channels W line s =
     (case check_target W s of
        None \<Rightarrow> (None, s)
      | Some target \<Rightarrow>
          if get_input line \<noteq> text_of ''delete'' then (None, s)
          else channels_delete W target (reset_stats s))"

section \<open>The read path: \<^verbatim>\<open>APIScraper\<close>\<close>

text \<open>
  What one HTTP exchange yields: a reply with its status, its \<^verbatim>\<open>Retry-After\<close> header and
  the outcome of decoding its body (the decoded document, or the text of the exception that
  \<^verbatim>\<open>resp.json()\<close> raised), or the text of the exception raised by the transport. The header
  is absent, or a text that \<^verbatim>\<open>float\<close> reads as the given float (\<^verbatim>\<open>float\<close> reads
  \<^verbatim>\<open>inf\<close> and \<^verbatim>\<open>nan\<close> too), or a text on which \<^verbatim>\<open>float\<close> raises (with the
  exception's text).
\<close>

datatype retry_header = Absent | Seconds pyfloat | Unparsable string

datatype response = Reply nat retry_header "string + pyval" | NetFail string

datatype endpoint = GuildInfo int | GuildChannels int | GuildRoles int | GuildEmojis int

fun show_nat :: "nat \<Rightarrow> string" where
  "show_nat n =
     (if n < 10 then [char_of (48 + n)] else show_nat (n div 10) @ [char_of (48 + n mod 10)])"

definition error_doc :: "string \<Rightarrow> pyval" where
  "error_doc msg = PDict [(''error'', PStr msg)]"

definition status_doc :: "string \<Rightarrow> nat \<Rightarrow> pyval" where
  "status_doc msg status = PDict [(''error'', PStr msg), (''status'', PInt (int status))]"

text \<open>\<^verbatim>\<open>float(resp.headers.get("Retry-After", 5))\<close>: the interval, or the exception's text.\<close>

fun retry_of :: "retry_header \<Rightarrow> string + pyfloat" where
  "retry_of Absent = Inr (Fin 5)"
| "retry_of (Seconds x) = Inr x"
| "retry_of (Unparsable msg) = Inl msg"

text \<open>
  \<^verbatim>\<open>await asyncio.sleep(retry)\<close>. The sleep returns after a finite delay (at once when the
  delay is not positive, \<^verbatim>\<open>-inf\<close> included); with the delay \<^verbatim>\<open>inf\<close> the timer never
  fires and the sleep does not return. On NaN the outcome depends on the interpreter (from
  Python 3.13 on the sleep raises \<^verbatim>\<open>ValueError\<close>, before it does not return): nothing is
  assumed of it.
\<close>

datatype pause = Wakes | Hangs | SleepRaises string

fun asyncio_sleep :: "pyfloat \<Rightarrow> pause" where
  "asyncio_sleep (Fin q) = Wakes"
| "asyncio_sleep NegInf = Wakes"
| "asyncio_sleep PosInf = Hangs"
| "asyncio_sleep NaN = undefined"

text \<open>
  \<^verbatim>\<open>APIScraper.get\<close>. \<open>replies n\<close> is the exchange of the \<open>n\<close>-th attempt at the request.
  On a 429 the function sleeps and calls itself: \<^verbatim>\<open>return await self.get(endpoint)\<close>,
  inside its own \<^verbatim>\<open>try\<close>. Nothing in the function counts the attempts; what ends them
  is the interpreter. \<open>depth\<close> is the number of further nested calls of \<^verbatim>\<open>get\<close> that the
  interpreter admits below the present one, and \<open>overflow\<close> is the text of the
  \<^verbatim>\<open>RecursionError\<close> it raises beyond that. The error is raised inside the \<^verbatim>\<open>try\<close> of
  the call that was to go one deeper, is caught there by \<^verbatim>\<open>except Exception\<close> and becomes
  the returned document, which every enclosing call passes on.

  The result is the document returned, or \<open>None\<close> when the call never returns, and what
  the call did, in order: attempts at the request and sleeps.
\<close>

datatype step = Attempt | Slept pyfloat

fun get :: "string \<Rightarrow> nat \<Rightarrow> (nat \<Rightarrow> response) \<Rightarrow> nat \<Rightarrow> pyval option \<times> step list" where
  "get overflow depth replies n =
     (case replies n of
        NetFail msg \<Rightarrow> (Some (error_doc msg), [Attempt])
      | Reply status retry_after body \<Rightarrow>
          if status = 200 then
            (Some (case body of Inr doc \<Rightarrow> doc | Inl msg \<Rightarrow> error_doc msg), [Attempt])
          else if status = 429 then
            (case retry_of retry_after of
               Inl msg \<Rightarrow> (Some (error_doc msg), [Attempt])
             | Inr retry \<Rightarrow>
                 (case asyncio_sleep retry of
                    Hangs \<Rightarrow> (None, [Attempt, Slept retry])
                  | SleepRaises msg \<Rightarrow> (Some (error_doc msg), [Attempt, Slept retry])
                  | Wakes \<Rightarrow>
                      (case depth of
                         0 \<Rightarrow> (Some (error_doc overflow), [Attempt, Slept retry])
                       | Suc deeper \<Rightarrow>
                           (case get overflow deeper replies (Suc n) of
                              (doc, steps) \<Rightarrow> (doc, Attempt # Slept retry # steps)))))
          else if status = 403 then (Some (status_doc ''forbidden'' 403), [Attempt])
          else if status = 401 then (Some (status_doc ''unauthorized'' 401), [Attempt])
          else (Some (status_doc (''http '' @ show_nat status) status), [Attempt]))"

text \<open>
  \<^verbatim>\<open>scrape_server\<close>. \<open>server\<close> gives, for each of the four requests, the exchanges of
  its successive attempts; \<open>now\<close> is \<^verbatim>\<open>datetime.now().isoformat()\<close>. The four reads are
  made one after the other from the same frame, so each has the same \<open>depth\<close> at its
  disposal, and a read that never returns leaves the capture without a result (\<open>None\<close>).
  \<open>as_list\<close> is \<^verbatim>\<open>x if isinstance(x, list) else []\<close>, which also covers the replacement of
  \<^verbatim>\<open>None\<close> by \<^verbatim>\<open>[]\<close> made before it.
\<close>

definition as_list :: "pyval \<Rightarrow> pyval list" where
  "as_list v = (case v of PList xs \<Rightarrow> xs | _ \<Rightarrow> [])"

definition scrape_server ::
  "string \<Rightarrow> nat \<Rightarrow> (endpoint \<Rightarrow> nat \<Rightarrow> response) \<Rightarrow> string \<Rightarrow> int \<Rightarrow> snapshot option" where
  "scrape_server overflow depth server now guild_id =
     (case fst (get overflow depth (server (GuildInfo guild_id)) 0) of
        None \<Rightarrow> None
      | Some guild \<Rightarrow>
     (case fst (get overflow depth (server (GuildChannels guild_id)) 0) of
        None \<Rightarrow> None
      | Some channels \<Rightarrow>
     (case fst (get overflow depth (server (GuildRoles guild_id)) 0) of
        None \<Rightarrow> None
      | Some roles \<Rightarrow>
     (case fst (get overflow depth (server (GuildEmojis guild_id)) 0) of
        None \<Rightarrow> None
      | Some emojis \<Rightarrow>
          Some \<lparr>s_id = guild_id,
                s_timestamp = now,
                s_guild = (if guild = PNone then error_doc ''no response'' else guild),
                s_channels = as_list channels,
                s_roles = as_list roles,
                s_emojis = as_list emojis\<rparr>))))"

section \<open>Vocabulary of the statements\<close>




text \<open>
  A read fails at once when the transport raises or the status is neither 200 nor 429.
\<close>

definition failed :: "response \<Rightarrow> bool" where
  "failed r = (case r of Reply status h b \<Rightarrow> status \<noteq> 200 \<and> status \<noteq> 429 | NetFail m \<Rightarrow> True)"

text \<open>
  The pause a reply asks for ends unless the reply is a 429 whose \<^verbatim>\<open>Retry-After\<close> reads
  as \<^verbatim>\<open>inf\<close> or as NaN.
\<close>

definition pause_ends :: "response \<Rightarrow> bool" where
  "pause_ends r =
     (case r of
        Reply status h b \<Rightarrow> status \<noteq> 429 \<or> h \<noteq> Seconds PosInf \<and> h \<noteq> Seconds NaN
      | NetFail m \<Rightarrow> True)"





section \<open>Example inputs\<close>

text \<open>
  A target guild with two roles besides the default role; a snapshot of a source that has
  a name and nothing else; a bot that holds the snapshot and has the target selected.
\<close>

definition guild0 :: guild where
  "guild0 = \<lparr>g_name = ''target'', g_default_role = 100,
             g_roles = [(100, ''@everyone''), (1, ''mods''), (2, ''members'')],
             g_channels = [], g_emojis = [], g_manage_channels = True,
             g_manage_roles = True\<rparr>"

definition snap0 :: snapshot where
  "snap0 = \<lparr>s_id = 5, s_timestamp = ''2024-01-01T00:00:00'',
            s_guild = PDict [(''id'', PStr ''5''), (''name'', PStr ''source'')],
            s_channels = [], s_roles = [], s_emojis = []\<rparr>"

definition bot0 :: bot where
  "bot0 = \<lparr>role_map = [], cat_map = [], chan_map = [], source_id = Some 5, client = True,
           target_id = Some 9, scraped_data = Some snap0, trace = [],
           current_operation = ''idle'', completed = 0, total = 0, errors = 0, log = []\<rparr>"

text \<open>A target on which every call succeeds and returns a fresh handle.\<close>

definition api_fresh :: "call list \<Rightarrow> call \<Rightarrow> outcome" where
  "api_fresh tr c = Ok (200 + length tr)"

definition world_ok :: world where
  "world_ok = \<lparr>api = api_fresh, cdn = (\<lambda>r. Fetched 404 []),
               get_guild = (\<lambda>i. if i = 9 then Some guild0 else None)\<rparr>"

text \<open>The same target, seen by a bot whose member lacks \<^verbatim>\<open>manage_roles\<close>.\<close>

definition world_no_permission :: world where
  "world_no_permission =
     \<lparr>api = api_fresh, cdn = (\<lambda>r. Fetched 404 []),
      get_guild = (\<lambda>i. if i = 9 then Some (guild0\<lparr>g_manage_roles := False\<rparr>) else None)\<rparr>"

text \<open>
  A target on which creating succeeds and editing a channel's position fails with an
  HTTP error (a \<^verbatim>\<open>discord.HTTPException\<close> other than \<^verbatim>\<open>Forbidden\<close>).
\<close>

definition api_edit_fails :: "call list \<Rightarrow> call \<Rightarrow> outcome" where
  "api_edit_fails tr c =
     (case c of
        ChannelEditPosition h p \<Rightarrow> Raise HTTPException
      | ChannelEditNews h \<Rightarrow> Raise HTTPException
      | _ \<Rightarrow> Ok 7)"

definition world_edit_fails :: world where
  "world_edit_fails = \<lparr>api = api_edit_fails, cdn = (\<lambda>r. Fetched 404 []), get_guild = (\<lambda>i. None)\<rparr>"

definition one_category :: "pyval list" where
  "one_category = [PDict [(''id'', PStr ''10''), (''type'', PInt 4), (''name'', PStr ''general''),
                          (''position'', PInt 0)]]"

definition one_news_channel :: "pyval list" where
  "one_news_channel = [PDict [(''id'', PStr ''12''), (''type'', PInt 5), (''name'', PStr ''news''),
                              (''position'', PInt 0)]]"

text \<open>
  A target on which deleting a role fails with an exception that is not a
  \<^verbatim>\<open>discord.HTTPException\<close> (the connection is lost, say).
\<close>

definition api_delete_fails :: "call list \<Rightarrow> call \<Rightarrow> outcome" where
  "api_delete_fails tr c = (case c of RoleDelete h \<Rightarrow> Raise OtherError | _ \<Rightarrow> Ok 7)"

definition world_delete_fails :: world where
  "world_delete_fails =
     \<lparr>api = api_delete_fails, cdn = (\<lambda>r. Fetched 404 []), get_guild = (\<lambda>i. None)\<rparr>"

text \<open>Two categories; the first has \<^verbatim>\<open>"permission_overwrites": null\<close>.\<close>

definition two_categories :: "pyval list" where
  "two_categories =
     [PDict [(''id'', PStr ''10''), (''type'', PInt 4), (''name'', PStr ''first''),
             (''position'', PInt 0), (''permission_overwrites'', PNone)],
      PDict [(''id'', PStr ''11''), (''type'', PInt 4), (''name'', PStr ''second''),
             (''position'', PInt 1)]]"

text \<open>Overwrites of a mapped role, a member, an unmapped role and the default role.\<close>

definition ows_example :: pyval where
  "ows_example = PList
     [PDict [(''id'', PStr ''11''), (''type'', PInt 0), (''allow'', PStr ''8''), (''deny'', PStr ''0'')],
      PDict [(''id'', PStr ''77''), (''type'', PInt 1), (''allow'', PStr ''1''), (''deny'', PStr ''0'')],
      PDict [(''id'', PStr ''12''), (''type'', PInt 0), (''allow'', PStr ''4''), (''deny'', PStr ''0'')],
      PDict [(''id'', PStr ''5''), (''type'', PInt 0), (''allow'', PStr ''0''), (''deny'', PStr ''2'')]]"



text \<open>
  The text of the interpreter's \<^verbatim>\<open>RecursionError\<close>. Replies to the attempts at one
  request: 429 on every attempt, asking for one second; 429 twice (the first without
  \<^verbatim>\<open>Retry-After\<close>, the second asking for 2 seconds) and then a document; 429 with
  \<^verbatim>\<open>Retry-After: inf\<close>.
\<close>

definition recursion_text :: string where
  "recursion_text = ''maximum recursion depth exceeded''"



definition endless_429 :: "nat \<Rightarrow> response" where
  "endless_429 n = Reply 429 (Seconds PosInf) (Inr PNone)"

text \<open>
  A source that answers the channel list with the given status and every other read with
  a document; and one that answers the channel list with \<^verbatim>\<open>endless_429\<close>.
\<close>

definition source_server :: "nat \<Rightarrow> endpoint \<Rightarrow> nat \<Rightarrow> response" where
  "source_server channels_status ep n =
     (case ep of
        GuildInfo g \<Rightarrow> Reply 200 Absent (Inr (PDict [(''id'', PStr ''5''), (''name'', PStr ''source'')]))
      | GuildChannels g \<Rightarrow> Reply channels_status Absent (Inr (PList []))
      | GuildRoles g \<Rightarrow> Reply 200 Absent (Inr (PList [PDict [(''id'', PStr ''5'')]]))
      | GuildEmojis g \<Rightarrow> Reply 200 Absent (Inr (PList [])))"

definition endless_server :: "endpoint \<Rightarrow> nat \<Rightarrow> response" where
  "endless_server ep n =
     (case ep of GuildChannels g \<Rightarrow> endless_429 n | _ \<Rightarrow> source_server 200 ep n)"

section \<open>Properties\<close>

subsection \<open>The overwrite translator\<close>

lemma bind_exn_Inr_iff: "bind_exn m f = Inr y \<longleftrightarrow> (\<exists>x. m = Inr x \<and> f x = Inr y)"
  by (cases m) auto

lemma ow_entry_alt:
  "ow_entry rm src dr ow =
     bind_exn (py_get ow ''type'' (PInt 0)) (\<lambda>t.
     bind_exn (int_field ow ''id'') (\<lambda>sid.
     bind_exn (int_field ow ''allow'') (\<lambda>a.
     bind_exn (int_field ow ''deny'') (\<lambda>d.
       Inr (if py_eq_int t 0
            then map_option (\<lambda>h. (h, FromPair a d)) (resolve_group rm src dr sid)
            else None)))))"
  unfolding ow_entry_def
  apply (cases "py_get ow ''type'' (PInt 0)"; simp)
  apply (cases "int_field ow ''id''"; simp)
  apply (cases "int_field ow ''allow''"; simp)
  apply (cases "int_field ow ''deny''"; simp)
  apply (simp add: dict_get_def resolve_group_def Let_def split: option.splits)
  done

lemma ow_entry_Inr:
  "ow_entry rm src dr ow = Inr r \<longleftrightarrow>
     (\<exists>t sid a d. py_get ow ''type'' (PInt 0) = Inr t \<and> int_field ow ''id'' = Inr sid
        \<and> int_field ow ''allow'' = Inr a \<and> int_field ow ''deny'' = Inr d
        \<and> (if py_eq_int t 0
            then map_option (\<lambda>h. (h, FromPair a d)) (resolve_group rm src dr sid)
            else None) = r)"
  by (simp add: ow_entry_alt bind_exn_Inr_iff)

lemma ow_entry_Some:
  "ow_entry rm src dr ow = Inr (Some (h, FromPair a d)) \<Longrightarrow>
     emits rm src dr ow h \<and> int_field ow ''allow'' = Inr a \<and> int_field ow ''deny'' = Inr d"
  unfolding ow_entry_Inr
  by (auto simp: emits_def group_kind_def split: if_splits)

lemma ow_entry_None:
  "ow_entry rm src dr ow = Inr None \<Longrightarrow> \<not> emits rm src dr ow h"
  unfolding ow_entry_Inr
  by (auto simp: emits_def group_kind_def split: if_splits)

lemma emits_unique: "emits rm src dr ow h \<Longrightarrow> emits rm src dr ow h' \<Longrightarrow> h' = h"
  by (cases "int_field ow ''id''") (simp_all add: emits_def)

lemma emits_Cons:
  "{h. \<exists>ow \<in> set (x # xs). emits rm src dr ow h} =
     {h. emits rm src dr x h} \<union> {h. \<exists>ow \<in> set xs. emits rm src dr ow h}"
  by auto

lemma parse_loop_keys:
  "parse_loop rm src dr items acc = Inr out \<Longrightarrow>
     fst ` set out = fst ` set acc \<union> {h. \<exists>ow \<in> set items. emits rm src dr ow h}"
proof (induction items arbitrary: acc)
  case Nil
  then show ?case by simp
next
  case (Cons ow rest)
  show ?case
  proof (cases "ow_entry rm src dr ow")
    case (Inl e)
    with Cons.prems show ?thesis by simp
  next
    case (Inr r)
    show ?thesis
    proof (cases r)
      case None
      with Inr Cons.prems have "parse_loop rm src dr rest acc = Inr out" by simp
      from Cons.IH [OF this]
      have ih: "fst ` set out = fst ` set acc \<union> {h. \<exists>ow \<in> set rest. emits rm src dr ow h}" .
      from Inr None have "{h. emits rm src dr ow h} = {}"
        using ow_entry_None [of rm src dr ow] by simp
      with ih show ?thesis unfolding emits_Cons by auto
    next
      case (Some e)
      obtain h a d where e: "e = (h, FromPair a d)"
        by (cases e) (metis overwrite.exhaust)
      with Inr Some Cons.prems
      have "parse_loop rm src dr rest (AList.update h (FromPair a d) acc) = Inr out" by simp
      from Cons.IH [OF this] have ih:
        "fst ` set out = insert h (fst ` set acc) \<union> {h. \<exists>ow \<in> set rest. emits rm src dr ow h}"
        by (simp add: dom_update)
      from Inr Some e have em: "emits rm src dr ow h"
        using ow_entry_Some [of rm src dr ow h a d] by simp
      have "{h'. emits rm src dr ow h'} = {h}"
        using em emits_unique [OF em] by blast
      with ih show ?thesis unfolding emits_Cons by auto
    qed
  qed
qed

text \<open>
  C5. Whenever the translator returns, the target roles that carry an entry of its output
  are exactly the handles to which some overwrite of group kind in the input resolves
  (through the group remapper, or through the default-role substitution). So an overwrite
  of member kind, and a group overwrite whose id resolves to no handle, contribute no
  entry.
\<close>

theorem overwrites_only_resolved_groups:
  assumes "py_iter overwrites_data = Inr items"
    and "parse_permission_overwrites rm src dr overwrites_data = Inr out"
  shows "h \<in> fst ` set out \<longleftrightarrow> (\<exists>ow \<in> set items. emits rm src dr ow h)"
  using assms parse_loop_keys [of rm src dr items "[]" out]
  by (simp add: parse_permission_overwrites_def)

theorem overwrites_only_resolved_groups_witness:
  "parse_permission_overwrites [(PInt 11, 101)] (Some 5) 100 ows_example
     = Inr [(101, FromPair 8 0), (100, FromPair 0 2)]
   \<and> (\<exists>items. py_iter ows_example = Inr items
        \<and> (\<exists>ow \<in> set items. emits [(PInt 11, 101)] (Some 5) 100 ow 101)
        \<and> \<not> (\<exists>ow \<in> set items. emits [(PInt 11, 101)] (Some 5) 100 ow 102))"
proof -
  have p: "parse_permission_overwrites [(PInt 11, 101)] (Some 5) 100 ows_example
            = Inr [(101, FromPair 8 0), (100, FromPair 0 2)]"
    by code_simp
  obtain items where i: "py_iter ows_example = Inr items"
    by (simp add: ows_example_def)
  from overwrites_only_resolved_groups [OF i p, of 101]
       overwrites_only_resolved_groups [OF i p, of 102] p i
  show ?thesis by simp
qed

subsection \<open>Totality of \<^verbatim>\<open>safe_int\<close>\<close>

lemma safe_int_not_float: "\<forall>x. v \<noteq> PFloat x \<Longrightarrow> \<exists>n. safe_int v d = Inr n"
  by (cases v) auto

lemma safe_int_finite: "\<exists>n. safe_int (PFloat (Fin q)) d = Inr n"
  by simp

text \<open>
  C9. \<^verbatim>\<open>safe_int\<close> is meant to return an integer for every value and never to raise.
  The float branch calls \<^verbatim>\<open>int(value)\<close> outside any handler: on an infinite float the
  call raises \<^verbatim>\<open>OverflowError\<close> and on NaN \<^verbatim>\<open>ValueError\<close>, so the function is
  not total. (The string branch, beside it, catches the failure of the same conversion.)
\<close>

theorem safe_int_raises_on_nonfinite_float:
  "safe_int (PFloat PosInf) 0 = Inl OverflowError
   \<and> safe_int (PFloat NegInf) 0 = Inl OverflowError
   \<and> safe_int (PFloat NaN) 0 = Inl ValueError"
  by simp

subsection \<open>The remapper tables after the creation phases\<close>

text \<open>
  What each creation block leaves in its table, once the arguments of the call and the
  source id were read: \<^verbatim>\<open>roles_create\<close> and \<^verbatim>\<open>channels_create\<close> register the handle
  exactly when the creation call succeeds; \<^verbatim>\<open>categories_create\<close> registers it only when
  the edit of the position succeeds as well.
\<close>

lemma role_map_log_add [simp]: "role_map (log_add m s) = role_map s"
  by (simp add: log_add_def)

lemma chan_map_log_add [simp]: "chan_map (log_add m s) = chan_map s"
  by (simp add: log_add_def)

lemma cat_map_log_add [simp]: "cat_map (log_add m s) = cat_map s"
  by (simp add: log_add_def)

lemma role_body_registers:
  assumes "role_call role_data name = Inr c"
    and "py_get role_data ''id'' PNone = Inr k" and "py_hashable k"
  shows "role_map (snd (role_body W role_data name s)) =
           (case api W (trace s) c of
              Ok h \<Rightarrow> AList.update (py_key k) h (role_map s)
            | Raise e \<Rightarrow> role_map s)"
  using assms
  by (simp add: role_body_def invoke_def dict_set_def split: outcome.splits)

lemma channel_body_registers:
  assumes "bind_exn (int_field ch_data ''position'')
             (\<lambda>pos. leaf_call ct name category ows pos ch_data) = Inr c"
    and "py_get ch_data ''id'' PNone = Inr k" and "py_hashable k"
  shows "chan_map (snd (channel_body W ch_data name ct category ows s)) =
           (case api W (trace s) c of
              Ok h \<Rightarrow> AList.update (py_key k) h (chan_map s)
            | Raise e \<Rightarrow> chan_map s)"
  using assms
  by (simp add: channel_body_def invoke_def dict_set_def Let_def split: outcome.splits)

lemma category_body_registers:
  assumes "bind_exn (py_get cat_data ''permission_overwrites'' (PList []))
             (parse_permission_overwrites (role_map s) (source_id s) (g_default_role g)) = Inr ows"
    and "int_field cat_data ''position'' = Inr pos"
    and "py_get cat_data ''id'' PNone = Inr k" and "py_hashable k"
  shows "cat_map (snd (category_body W g cat_data name s)) =
           (case api W (trace s) (CreateCategory name ows) of
              Ok h \<Rightarrow>
                (case api W (trace s @ [CreateCategory name ows]) (ChannelEditPosition h pos) of
                   Ok r \<Rightarrow> AList.update (py_key k) h (cat_map s)
                 | Raise e \<Rightarrow> cat_map s)
            | Raise e \<Rightarrow> cat_map s)"
  using assms
  by (simp add: category_body_def invoke_def dict_set_def split: outcome.splits)

lemma news_channel_registered_despite_failed_edit:
  "chan_map (snd (channels_create world_edit_fails guild0 one_news_channel bot0)) = [(PStr ''12'', 7)]
   \<and> errors (snd (channels_create world_edit_fails guild0 one_news_channel bot0)) = 0"
  by code_simp

text \<open>
  C1. After the creation phases each remapper table should hold exactly the source ids
  whose creation call succeeded. In \<^verbatim>\<open>categories_create\<close> the registration in
  \<^verbatim>\<open>cat_map\<close> comes after \<^verbatim>\<open>new_cat.edit(position=pos)\<close> inside the same \<^verbatim>\<open>try\<close>: when
  the creation succeeds and the edit fails, the category exists on the target and the
  table has no entry for it. Here the creation call returns handle 7, the phase ends with
  one logged error, and \<^verbatim>\<open>cat_map\<close> is empty. (In \<^verbatim>\<open>channels_create\<close> the edit that
  follows the creation of an announcement channel is guarded on its own, and the handle is
  registered all the same, as the lemma above shows.)
\<close>

theorem category_created_but_not_registered:
  "api world_edit_fails [] (CreateCategory (PStr ''general'') []) = Ok 7
   \<and> categories_create world_edit_fails guild0 one_category bot0 =
       (None, bot0\<lparr>trace := [CreateCategory (PStr ''general'') [], ChannelEditPosition 7 0],
                   current_operation := ''Creating Categories'', total := 1, completed := 1,
                   errors := 1, log := [(Failed, ''http error'')]\<rparr>)
   \<and> cat_map (snd (categories_create world_edit_fails guild0 one_category bot0)) = []"
  by code_simp

subsection \<open>Failures at the item boundary\<close>

text \<open>
  C2. Every failure while processing an item should be caught in the loop body, logged and
  counted, and the loop should go on. The wipe phases and \<^verbatim>\<open>categories_create\<close> have
  handlers for \<^verbatim>\<open>discord.Forbidden\<close> and \<^verbatim>\<open>discord.HTTPException\<close> only. In
  \<^verbatim>\<open>roles_delete\<close> a delete that fails with any other exception ends the phase: the
  exception escapes after the first role, nothing is logged or counted, and the second role
  is never tried. In \<^verbatim>\<open>categories_create\<close> a category whose overwrites are \<^verbatim>\<open>null\<close>
  raises \<^verbatim>\<open>TypeError\<close> in the translation, which escapes before any call is issued, and
  the second category is never created.
\<close>

theorem exception_escapes_item_boundary:
  "roles_delete world_delete_fails guild0 bot0 =
     (Some OtherError,
      bot0\<lparr>trace := [RoleDelete 1], current_operation := ''Deleting Roles'', total := 2\<rparr>)
   \<and> categories_create world_ok guild0 two_categories bot0 =
     (Some TypeError, bot0\<lparr>current_operation := ''Creating Categories'', total := 2\<rparr>)"
  by code_simp

subsection \<open>The gates of the entry points\<close>

lemma check_target_Some:
  "check_target W s = Some t \<longleftrightarrow>
     client s \<and> (\<exists>tid. target_id s = Some tid \<and> tid \<noteq> 0 \<and> get_guild W tid = Some t)
     \<and> g_manage_channels t \<and> g_manage_roles t"
  by (auto simp: check_target_def split: option.splits)

text \<open>
  C7. \<^verbatim>\<open>check_target\<close> yields the target exactly when a client is connected, a target id
  is set, the client resolves it to a guild, and the bot's member holds both
  \<^verbatim>\<open>manage_channels\<close> and \<^verbatim>\<open>manage_roles\<close>. When it yields nothing, \<^verbatim>\<open>do_full_clone\<close>
  returns with the state as it was: no call is added to the trace and no table is reset.
\<close>

theorem no_mutation_unless_precondition:
  "(check_target W s = Some t \<longleftrightarrow>
      client s \<and> (\<exists>tid. target_id s = Some tid \<and> tid \<noteq> 0 \<and> get_guild W tid = Some t)
      \<and> g_manage_channels t \<and> g_manage_roles t)
   \<and> (check_target W s = None \<longrightarrow> do_full_clone W line s = (None, s))"
  by (simp add: check_target_Some do_full_clone_def split: option.splits)

theorem no_mutation_unless_precondition_witness:
  "check_target world_no_permission bot0 = None
   \<and> do_full_clone world_no_permission (text_of ''clone'') bot0 = (None, bot0)"
proof -
  have c: "check_target world_no_permission bot0 = None"
    by code_simp
  with no_mutation_unless_precondition [of world_no_permission bot0 guild0 "text_of ''clone''"]
  show ?thesis by blast
qed

lemma strip_removes_no_break_space: "get_input (text_of ''clone'' @ [160]) = text_of ''clone''"
  by code_simp

text \<open>
  C10, as the code has it. The entry points compare the answer of \<^verbatim>\<open>get_input\<close>, which
  is the typed line with the surrounding whitespace removed. Whenever that answer differs
  from \<^verbatim>\<open>clone\<close>, \<^verbatim>\<open>do_full_clone\<close> returns with the state as it was (no call issued, no
  table reset), and whenever it differs from \<^verbatim>\<open>delete\<close>, so do \<^verbatim>\<open>do_delete_roles\<close> and
  \<^verbatim>\<open>do_delete_channels\<close>.
\<close>

theorem confirmation_gates:
  "(get_input line \<noteq> text_of ''clone'' \<longrightarrow> do_full_clone W line s = (None, s))
   \<and> (get_input line \<noteq> text_of ''delete'' \<longrightarrow> do_delete_roles W line s = (None, s))
   \<and> (get_input line \<noteq> text_of ''delete'' \<longrightarrow> do_delete_channels W line s = (None, s))"
  by (simp add: do_full_clone_def do_delete_roles_def do_delete_channels_def split: option.splits)

theorem confirmation_gates_witness:
  "get_input (text_of ''Clone'') \<noteq> text_of ''clone''
   \<and> get_input (text_of ''Clone'') \<noteq> text_of ''delete''
   \<and> do_full_clone world_ok (text_of ''Clone'') bot0 = (None, bot0)
   \<and> do_delete_roles world_ok (text_of ''Clone'') bot0 = (None, bot0)
   \<and> do_delete_channels world_ok (text_of ''Clone'') bot0 = (None, bot0)"
proof -
  have a: "get_input (text_of ''Clone'') \<noteq> text_of ''clone''"
    and b: "get_input (text_of ''Clone'') \<noteq> text_of ''delete''"
    by code_simp+
  with confirmation_gates [of "text_of ''Clone''" world_ok bot0]
  show ?thesis by blast
qed

text \<open>
  C10, as stated, fails: a typed line that is not exactly \<^verbatim>\<open>clone\<close> but becomes it once
  stripped passes the gate, and the run mutates the target.
\<close>

theorem padded_confirmation_counterexample:
  "text_of '' clone'' \<noteq> text_of ''clone''
   \<and> trace (snd (do_full_clone world_ok (text_of '' clone'') bot0)) =
     [GuildEditName (PStr ''source''), RoleDelete 1, RoleDelete 2]"
  by code_simp

subsection \<open>The parent of a leaf\<close>



lemma trace_log_add [simp]: "trace (log_add m s) = trace s"
  by (simp add: log_add_def)

lemma trace_log_error [simp]: "trace (log_error m s) = trace s"
  by (simp add: log_error_def)

lemma trace_step_done [simp]: "trace (step_done s) = trace s"
  by (simp add: step_done_def)








subsection \<open>The read path\<close>

declare get.simps [simp del]










lemma get_failed:
  "failed (replies n) \<Longrightarrow>
     \<exists>msg rest. get ov d replies n = (Some (PDict ((''error'', PStr msg) # rest)), [Attempt])"
  by (subst get.simps, cases "replies n") (auto simp: failed_def error_doc_def status_doc_def)

lemma failed_read_not_list:
  assumes "failed (replies 0)" and "fst (get ov depth replies 0) = Some doc"
  shows "as_list doc = [] \<and> doc \<noteq> PNone \<and> py_has_key doc ''error''"
  using get_failed [of replies 0 ov depth] assms by (auto simp: as_list_def)

lemma wakes_if_pause_ends:
  "pause_ends (Reply 429 h b) \<Longrightarrow> retry_of h = Inr x \<Longrightarrow> asyncio_sleep x = Wakes"
  by (cases h; cases x) (auto simp: pause_ends_def)

lemma get_returns:
  "(\<forall>i \<le> depth. pause_ends (replies (n + i))) \<Longrightarrow> \<exists>doc. fst (get ov depth replies n) = Some doc"
proof (induction depth arbitrary: n)
  case 0
  then have p: "pause_ends (replies n)" by force
  show ?case
  proof (cases "replies n")
    case (NetFail msg)
    then show ?thesis by (subst get.simps) simp
  next
    case (Reply status h b)
    show ?thesis
    proof (cases "status = 429")
      case False
      with Reply show ?thesis by (subst get.simps) simp
    next
      case True
      show ?thesis
      proof (cases "retry_of h")
        case (Inl msg)
        with Reply True show ?thesis by (subst get.simps) simp
      next
        case (Inr x)
        with p Reply True have "asyncio_sleep x = Wakes"
          using wakes_if_pause_ends [of h b x] by simp
        with Reply True Inr show ?thesis by (subst get.simps) simp
      qed
    qed
  qed
next
  case (Suc d)
  then have p: "pause_ends (replies n)" by force
  have "\<forall>i \<le> d. pause_ends (replies (Suc n + i))"
  proof (intro allI impI)
    fix i assume "i \<le> d"
    with Suc.prems have "pause_ends (replies (n + Suc i))" by force
    then show "pause_ends (replies (Suc n + i))" by simp
  qed
  from Suc.IH [OF this] obtain doc where deeper: "fst (get ov d replies (Suc n)) = Some doc" ..
  show ?case
  proof (cases "replies n")
    case (NetFail msg)
    then show ?thesis by (subst get.simps) simp
  next
    case (Reply status h b)
    show ?thesis
    proof (cases "status = 429")
      case False
      with Reply show ?thesis by (subst get.simps) simp
    next
      case True
      show ?thesis
      proof (cases "retry_of h")
        case (Inl msg)
        with Reply True show ?thesis by (subst get.simps) simp
      next
        case (Inr x)
        with p Reply True have "asyncio_sleep x = Wakes"
          using wakes_if_pause_ends [of h b x] by simp
        with Reply True Inr deeper show ?thesis
          by (subst get.simps) (auto split: prod.splits)
      qed
    qed
  qed
qed

lemma capture_sleeps_forever: "scrape_server recursion_text 10 endless_server ''now'' 5 = None"
  by code_simp

text \<open>
  C4, as the code has it. When no 429 reply asks for a pause that never ends, the four
  reads return and the capture returns a snapshot built from them. The guild document is
  kept as it was read, an error document included (only \<^verbatim>\<open>None\<close> is replaced, by an
  error document of its own), so a failed guild read leaves its error in the snapshot.
  Each of the channel, role and emoji fields is the list that was read, and the empty list
  for anything that is not a list; a failed read yields an error document, so its field is
  empty and the reason is gone.
\<close>

theorem scrape_server_defaults:
  assumes "\<forall>ep. \<forall>i \<le> depth. pause_ends (server ep i)"
  shows "\<exists>guild channels roles emojis.
       fst (get ov depth (server (GuildInfo gid)) 0) = Some guild
     \<and> fst (get ov depth (server (GuildChannels gid)) 0) = Some channels
     \<and> fst (get ov depth (server (GuildRoles gid)) 0) = Some roles
     \<and> fst (get ov depth (server (GuildEmojis gid)) 0) = Some emojis
     \<and> scrape_server ov depth server now gid =
         Some \<lparr>s_id = gid, s_timestamp = now,
               s_guild = (if guild = PNone then PDict [(''error'', PStr ''no response'')] else guild),
               s_channels = (case channels of PList xs \<Rightarrow> xs | _ \<Rightarrow> []),
               s_roles = (case roles of PList xs \<Rightarrow> xs | _ \<Rightarrow> []),
               s_emojis = (case emojis of PList xs \<Rightarrow> xs | _ \<Rightarrow> [])\<rparr>
     \<and> (failed (server (GuildInfo gid) 0) \<longrightarrow> guild \<noteq> PNone \<and> py_has_key guild ''error'')
     \<and> (failed (server (GuildChannels gid) 0)
          \<longrightarrow> (case channels of PList xs \<Rightarrow> xs | _ \<Rightarrow> []) = [] \<and> py_has_key channels ''error'')
     \<and> (failed (server (GuildRoles gid) 0)
          \<longrightarrow> (case roles of PList xs \<Rightarrow> xs | _ \<Rightarrow> []) = [] \<and> py_has_key roles ''error'')
     \<and> (failed (server (GuildEmojis gid) 0)
          \<longrightarrow> (case emojis of PList xs \<Rightarrow> xs | _ \<Rightarrow> []) = [] \<and> py_has_key emojis ''error'')"
proof -
  have r: "\<exists>doc. fst (get ov depth (server ep) 0) = Some doc" for ep
    using assms get_returns [of depth "server ep" 0 ov] by simp
  from r obtain guild where g: "fst (get ov depth (server (GuildInfo gid)) 0) = Some guild"
    by blast
  from r obtain channels
    where c: "fst (get ov depth (server (GuildChannels gid)) 0) = Some channels"
    by blast
  from r obtain roles where ro: "fst (get ov depth (server (GuildRoles gid)) 0) = Some roles"
    by blast
  from r obtain emojis where e: "fst (get ov depth (server (GuildEmojis gid)) 0) = Some emojis"
    by blast
  have snap: "scrape_server ov depth server now gid =
         Some \<lparr>s_id = gid, s_timestamp = now,
               s_guild = (if guild = PNone then PDict [(''error'', PStr ''no response'')] else guild),
               s_channels = (case channels of PList xs \<Rightarrow> xs | _ \<Rightarrow> []),
               s_roles = (case roles of PList xs \<Rightarrow> xs | _ \<Rightarrow> []),
               s_emojis = (case emojis of PList xs \<Rightarrow> xs | _ \<Rightarrow> [])\<rparr>"
    using g c ro e by (simp add: scrape_server_def as_list_def error_doc_def)
  have fg: "failed (server (GuildInfo gid) 0) \<longrightarrow> guild \<noteq> PNone \<and> py_has_key guild ''error''"
    using failed_read_not_list [of "server (GuildInfo gid)" ov depth guild] g by blast
  have fc: "failed (server (GuildChannels gid) 0)
      \<longrightarrow> (case channels of PList xs \<Rightarrow> xs | _ \<Rightarrow> []) = [] \<and> py_has_key channels ''error''"
    using failed_read_not_list [of "server (GuildChannels gid)" ov depth channels] c
    by (simp add: as_list_def)
  have fr: "failed (server (GuildRoles gid) 0)
      \<longrightarrow> (case roles of PList xs \<Rightarrow> xs | _ \<Rightarrow> []) = [] \<and> py_has_key roles ''error''"
    using failed_read_not_list [of "server (GuildRoles gid)" ov depth roles] ro
    by (simp add: as_list_def)
  have fe: "failed (server (GuildEmojis gid) 0)
      \<longrightarrow> (case emojis of PList xs \<Rightarrow> xs | _ \<Rightarrow> []) = [] \<and> py_has_key emojis ''error''"
    using failed_read_not_list [of "server (GuildEmojis gid)" ov depth emojis] e
    by (simp add: as_list_def)
  from g c ro e snap fg fc fr fe show ?thesis by blast
qed

theorem scrape_server_defaults_witness:
  "failed (source_server 403 (GuildChannels 5) 0)
   \<and> scrape_server recursion_text 10 (source_server 403) ''now'' 5 =
       Some \<lparr>s_id = 5, s_timestamp = ''now'',
             s_guild = PDict [(''id'', PStr ''5''), (''name'', PStr ''source'')],
             s_channels = [], s_roles = [PDict [(''id'', PStr ''5'')]], s_emojis = []\<rparr>"
proof -
  have p: "\<forall>ep. \<forall>i \<le> 10. pause_ends (source_server 403 ep i)"
    by (simp add: pause_ends_def source_server_def split: endpoint.splits)
  have f: "failed (source_server 403 (GuildChannels 5) 0)"
    by (simp add: failed_def source_server_def)
  have g: "fst (get recursion_text 10 (source_server 403 (GuildInfo 5)) 0)
             = Some (PDict [(''id'', PStr ''5''), (''name'', PStr ''source'')])"
    and r: "fst (get recursion_text 10 (source_server 403 (GuildRoles 5)) 0)
             = Some (PList [PDict [(''id'', PStr ''5'')]])"
    and e: "fst (get recursion_text 10 (source_server 403 (GuildEmojis 5)) 0) = Some (PList [])"
    by code_simp+
  from scrape_server_defaults [OF p, of recursion_text 5 "''now''"]
  obtain guild channels roles emojis where
    "fst (get recursion_text 10 (source_server 403 (GuildInfo 5)) 0) = Some guild"
    "fst (get recursion_text 10 (source_server 403 (GuildRoles 5)) 0) = Some roles"
    "fst (get recursion_text 10 (source_server 403 (GuildEmojis 5)) 0) = Some emojis"
    "scrape_server recursion_text 10 (source_server 403) ''now'' 5 =
         Some \<lparr>s_id = 5, s_timestamp = ''now'',
               s_guild = (if guild = PNone then PDict [(''error'', PStr ''no response'')] else guild),
               s_channels = (case channels of PList xs \<Rightarrow> xs | _ \<Rightarrow> []),
               s_roles = (case roles of PList xs \<Rightarrow> xs | _ \<Rightarrow> []),
               s_emojis = (case emojis of PList xs \<Rightarrow> xs | _ \<Rightarrow> [])\<rparr>"
    "failed (source_server 403 (GuildChannels 5) 0)
       \<longrightarrow> (case channels of PList xs \<Rightarrow> xs | _ \<Rightarrow> []) = []"
    by blast
  with g r e f have "scrape_server recursion_text 10 (source_server 403) ''now'' 5 =
       Some \<lparr>s_id = 5, s_timestamp = ''now'',
             s_guild = PDict [(''id'', PStr ''5''), (''name'', PStr ''source'')],
             s_channels = [], s_roles = [PDict [(''id'', PStr ''5'')]], s_emojis = []\<rparr>"
    by simp
  with f show ?thesis by blast
qed

text \<open>
  C4, as stated, fails in one part: the failure reason of a sub-resource is not retained.
  A channel read refused with 403, one refused with 401 and one that succeeds with an empty
  list give the same snapshot, which holds nothing of the error document.
\<close>

theorem failure_reason_dropped_counterexample:
  "get recursion_text 10 (source_server 403 (GuildChannels 5)) 0
     = (Some (status_doc ''forbidden'' 403), [Attempt])
   \<and> get recursion_text 10 (source_server 401 (GuildChannels 5)) 0
     = (Some (status_doc ''unauthorized'' 401), [Attempt])
   \<and> get recursion_text 10 (source_server 200 (GuildChannels 5)) 0 = (Some (PList []), [Attempt])
   \<and> scrape_server recursion_text 10 (source_server 403) ''now'' 5
     = scrape_server recursion_text 10 (source_server 200) ''now'' 5
   \<and> scrape_server recursion_text 10 (source_server 401) ''now'' 5
     = scrape_server recursion_text 10 (source_server 200) ''now'' 5
   \<and> scrape_server recursion_text 10 (source_server 200) ''now'' 5 =
       Some \<lparr>s_id = 5, s_timestamp = ''now'',
             s_guild = PDict [(''id'', PStr ''5''), (''name'', PStr ''source'')],
             s_channels = [], s_roles = [PDict [(''id'', PStr ''5'')]], s_emojis = []\<rparr>"
  by code_simp

end
